theory Spec2Isabelle
  imports Main "HOL-Library.Multiset"
begin

section \<open>The generated class \<open>Foo\<close> (oml_output/Foo.py)\<close>

text \<open>
  The source is one Python class:
  \<^verbatim>\<open>
  class Foo:
      __slots__ = ('_meow', '_hello', '_isTrue', )

      def __init__(self, meow: int, hello: str, isTrue: bool):
          self._meow = meow
          self._hello = hello
          self._isTrue = isTrue

      @property
      def meow(self) -> int:
          return self._meow

      @property
      def hello(self) -> str:
          return self._hello
      @hello.setter
      def hello(self, value: str):
          self._hello = value

      @property
      def isTrue(self) -> bool:
          return self._isTrue
      @isTrue.setter
      def isTrue(self, value: bool):
          self._isTrue = value
  \<close>
  The specification calls the class Record, the attributes \<open>meow\<close>, \<open>hello\<close>, \<open>isTrue\<close>
  fieldA, fieldB, fieldC, reading \<open>r.meow\<close> getFieldA(), and assigning \<open>r.hello = v\<close>
  setFieldB(v).
\<close>

subsection \<open>Values, errors, instances\<close>

text \<open>
  Python is dynamically typed: a parameter annotated \<open>int\<close> receives whatever value the
  caller passes. The values a caller can pass are a tagged union; the annotations of the
  source are not part of any run-time check, and no function of the source inspects a tag.

  Classes are values too. \<open>PyClass names\<close> is a class whose only base is \<open>object\<close> and
  whose \<open>__slots__\<close> holds \<open>names\<close>, as in
  \<^verbatim>\<open>class K: __slots__ = ('_meow', '_hello', '_isTrue')\<close>.
  Of such a value only the names of its slots matter below: they are what the
  assignment to \<open>__class__\<close> looks at.
\<close>

datatype pyval = PyInt int | PyStr string | PyBool bool | PyNone | PyClass "string list"

text \<open>The two exceptions that attribute access on an instance can raise.\<close>

datatype error = AttributeError | TypeError

text \<open>
  The class declares \<open>__slots__\<close> and has no base class but \<open>object\<close>, so an instance has
  no \<open>__dict__\<close>: its whole state is the content of its slots, each of them either unset
  or holding a value. An instance is the map from slot names to their content.
\<close>

type_synonym obj = "string \<rightharpoonup> pyval"

definition slots :: "string list" where
  "slots = [''_meow'', ''_hello'', ''_isTrue'']"

text \<open>
  For each name in \<open>__slots__\<close> Python puts a member descriptor into the class. Reading it
  on an instance whose slot is unset raises \<open>AttributeError\<close>; writing it stores the value,
  whatever it is.
\<close>

definition member_get :: "string \<Rightarrow> obj \<Rightarrow> error + pyval" where
  "member_get name self = (case self name of None \<Rightarrow> Inl AttributeError | Some v \<Rightarrow> Inr v)"

definition member_set :: "string \<Rightarrow> obj \<Rightarrow> pyval \<Rightarrow> obj" where
  "member_set name self v = self(name \<mapsto> v)"

subsection \<open>The properties of the source\<close>

text \<open>
  Inside the methods, \<open>self._meow\<close>, \<open>self._hello\<close> and \<open>self._isTrue\<close> name slots, so the
  reads and writes in the bodies of the getters and setters are those of the member
  descriptors (lemma \<open>setattr_slot\<close> below shows that the general attribute assignment
  agrees with this on the three names).
\<close>

definition meow :: "obj \<Rightarrow> error + pyval" where
  "meow self = member_get ''_meow'' self"

definition hello :: "obj \<Rightarrow> error + pyval" where
  "hello self = member_get ''_hello'' self"

definition hello_setter :: "obj \<Rightarrow> pyval \<Rightarrow> error + obj" where
  "hello_setter self v = Inr (member_set ''_hello'' self v)"

definition isTrue :: "obj \<Rightarrow> error + pyval" where
  "isTrue self = member_get ''_isTrue'' self"

definition isTrue_setter :: "obj \<Rightarrow> pyval \<Rightarrow> error + obj" where
  "isTrue_setter self v = Inr (member_set ''_isTrue'' self v)"

subsection \<open>Attribute assignment on an instance\<close>

text \<open>
  What the class body leaves in the class that matters for an assignment \<open>r.name = v\<close>:
  the data descriptors. These are the three members made from \<open>__slots__\<close> and the three
  properties; \<open>meow\<close> has a getter only, \<open>hello\<close> and \<open>isTrue\<close> have a getter and a setter.
\<close>

datatype attr =
    Member
  | Property "obj \<Rightarrow> error + pyval" "(obj \<Rightarrow> pyval \<Rightarrow> error + obj) option"

definition Foo_attrs :: "string \<Rightarrow> attr option" where
  "Foo_attrs name =
     (if name \<in> set slots then Some Member
      else if name = ''meow'' then Some (Property meow None)
      else if name = ''hello'' then Some (Property hello (Some hello_setter))
      else if name = ''isTrue'' then Some (Property isTrue (Some isTrue_setter))
      else None)"

text \<open>
  \<open>r.__class__ = v\<close> is handled by the descriptor \<open>__class__\<close> that every class inherits
  from \<open>object\<close>. It raises \<open>TypeError\<close> when \<open>v\<close> is not a class, and when \<open>v\<close> is a class
  whose instances are laid out differently. Two classes that add slots to \<open>object\<close> have
  the same layout when their sorted tuples of slot names are equal, that is, when they
  declare the same names the same number of times. Otherwise the assignment is accepted:
  the content of the slots stays as it is, and the instance from then on belongs to
  the class \<open>v\<close>. What later attribute accesses on it do is decided by that class, which
  is not part of the source; the functions of this theory describe an instance while
  its class is \<open>Foo\<close>.
\<close>

definition set_class :: "obj \<Rightarrow> pyval \<Rightarrow> error + obj" where
  "set_class self v =
     (case v of
        PyClass names \<Rightarrow> if mset names = mset slots then Inr self else Inl TypeError
      | _ \<Rightarrow> Inl TypeError)"

text \<open>
  \<open>r.name = v\<close> is \<open>object.__setattr__\<close>, since the class does not override it:
  \<^item> a member descriptor stores the value in its slot;
  \<^item> a property calls its setter, and raises \<open>AttributeError\<close> when it has none;
  \<^item> \<open>__class__\<close> is the descriptor above;
  \<^item> for every other name (a method, another attribute inherited from \<open>object\<close>, or a
    name the class does not know) the value would go to the instance's \<open>__dict__\<close>;
    there is none, so \<open>AttributeError\<close> is raised.
  An exception leaves the instance as it was: the caller still holds the object it
  passed.
\<close>

definition setattr :: "obj \<Rightarrow> string \<Rightarrow> pyval \<Rightarrow> error + obj" where
  "setattr self name v =
     (case Foo_attrs name of
        Some Member \<Rightarrow> Inr (member_set name self v)
      | Some (Property fget None) \<Rightarrow> Inl AttributeError
      | Some (Property fget (Some fset)) \<Rightarrow> fset self v
      | None \<Rightarrow> if name = ''__class__'' then set_class self v else Inl AttributeError)"

subsection \<open>Construction\<close>

text \<open>
  \<open>Foo(a, b, c)\<close> allocates an instance with every slot unset (\<open>object.__new__\<close>) and runs
  \<open>__init__\<close> on it: three attribute assignments in the order of the source, the first
  exception ending the construction.
\<close>

definition Foo_init :: "obj \<Rightarrow> pyval \<Rightarrow> pyval \<Rightarrow> pyval \<Rightarrow> error + obj" where
  "Foo_init self meow' hello' isTrue' =
     (case setattr self ''_meow'' meow' of
        Inl e \<Rightarrow> Inl e
      | Inr s1 \<Rightarrow>
          (case setattr s1 ''_hello'' hello' of
             Inl e \<Rightarrow> Inl e
           | Inr s2 \<Rightarrow> setattr s2 ''_isTrue'' isTrue'))"

definition Foo_new :: "pyval \<Rightarrow> pyval \<Rightarrow> pyval \<Rightarrow> error + obj" where
  "Foo_new a b c = Foo_init Map.empty a b c"

subsection \<open>The interface of the specification\<close>

text \<open>
  The accessors and mutators of the specification, as a caller of the class writes them:
  \<open>r.meow\<close>, \<open>r.hello\<close>, \<open>r.isTrue\<close> call the getter of the property; \<open>r.hello = v\<close> and
  \<open>r.isTrue = v\<close> are attribute assignments.
\<close>

definition getFieldA :: "obj \<Rightarrow> error + pyval" where
  "getFieldA r = meow r"

definition getFieldB :: "obj \<Rightarrow> error + pyval" where
  "getFieldB r = hello r"

definition getFieldC :: "obj \<Rightarrow> error + pyval" where
  "getFieldC r = isTrue r"

definition setFieldB :: "obj \<Rightarrow> pyval \<Rightarrow> error + obj" where
  "setFieldB r v = setattr r ''hello'' v"

definition setFieldC :: "obj \<Rightarrow> pyval \<Rightarrow> error + obj" where
  "setFieldC r v = setattr r ''isTrue'' v"

text \<open>
  A sequence of calls of the exposed operations on one instance. An accessor call returns
  a value and leaves the instance as it is; an exception ends the sequence.
\<close>

datatype op = GetFieldA | GetFieldB | GetFieldC | SetFieldB pyval | SetFieldC pyval

fun apply_op :: "obj \<Rightarrow> op \<Rightarrow> error + obj" where
  "apply_op r GetFieldA = (case getFieldA r of Inl e \<Rightarrow> Inl e | Inr x \<Rightarrow> Inr r)"
| "apply_op r GetFieldB = (case getFieldB r of Inl e \<Rightarrow> Inl e | Inr x \<Rightarrow> Inr r)"
| "apply_op r GetFieldC = (case getFieldC r of Inl e \<Rightarrow> Inl e | Inr x \<Rightarrow> Inr r)"
| "apply_op r (SetFieldB v) = setFieldB r v"
| "apply_op r (SetFieldC v) = setFieldC r v"

fun run :: "op list \<Rightarrow> obj \<Rightarrow> error + obj" where
  "run [] r = Inr r"
| "run (x # xs) r = (case apply_op r x of Inl e \<Rightarrow> Inl e | Inr r' \<Rightarrow> run xs r')"

text \<open>
  The statement \<open>r.name = v\<close> as a step on the instance, and the sequencing of two
  steps, the second one not run when the first one raises.
\<close>

definition assign :: "string \<Rightarrow> pyval \<Rightarrow> obj \<Rightarrow> error + obj" where
  "assign name v r = setattr r name v"

definition and_then :: "error + 'a \<Rightarrow> ('a \<Rightarrow> error + 'b) \<Rightarrow> error + 'b" where
  "and_then m f = (case m of Inl e \<Rightarrow> Inl e | Inr x \<Rightarrow> f x)"

text \<open>
  An instance is initialised when its three slots hold a value, as they do once
  \<open>__init__\<close> has run.
\<close>

definition initialised :: "obj \<Rightarrow> bool" where
  "initialised r = (r ''_meow'' \<noteq> None \<and> r ''_hello'' \<noteq> None \<and> r ''_isTrue'' \<noteq> None)"

section \<open>Attribute assignment, case by case\<close>

lemma Foo_attrs_slot: "name \<in> set slots \<Longrightarrow> Foo_attrs name = Some Member"
  by (simp add: Foo_attrs_def)

lemma setattr_slot: "name \<in> set slots \<Longrightarrow> setattr self name v = Inr (member_set name self v)"
  by (simp add: setattr_def Foo_attrs_slot)

lemma setattr_hello: "setattr self ''hello'' v = Inr (self(''_hello'' \<mapsto> v))"
  by (simp add: setattr_def Foo_attrs_def slots_def hello_setter_def member_set_def)

lemma setattr_isTrue: "setattr self ''isTrue'' v = Inr (self(''_isTrue'' \<mapsto> v))"
  by (simp add: setattr_def Foo_attrs_def slots_def isTrue_setter_def member_set_def)

lemma setattr_meow: "setattr self ''meow'' v = Inl AttributeError"
  by (simp add: setattr_def Foo_attrs_def slots_def)





lemma Foo_new_eq:
  "Foo_new a b c = Inr [''_meow'' \<mapsto> a, ''_hello'' \<mapsto> b, ''_isTrue'' \<mapsto> c]"
  by (simp add: Foo_new_def Foo_init_def setattr_slot slots_def member_set_def)

lemma getFieldA_eq: "getFieldA r = (case r ''_meow'' of None \<Rightarrow> Inl AttributeError | Some v \<Rightarrow> Inr v)"
  by (simp add: getFieldA_def meow_def member_get_def)

lemma getFieldB_eq: "getFieldB r = (case r ''_hello'' of None \<Rightarrow> Inl AttributeError | Some v \<Rightarrow> Inr v)"
  by (simp add: getFieldB_def hello_def member_get_def)

lemma getFieldC_eq: "getFieldC r = (case r ''_isTrue'' of None \<Rightarrow> Inl AttributeError | Some v \<Rightarrow> Inr v)"
  by (simp add: getFieldC_def isTrue_def member_get_def)

lemma setFieldB_eq: "setFieldB r v = Inr (r(''_hello'' \<mapsto> v))"
  by (simp add: setFieldB_def setattr_hello)

lemma setFieldC_eq: "setFieldC r v = Inr (r(''_isTrue'' \<mapsto> v))"
  by (simp add: setFieldC_def setattr_isTrue)

section \<open>Sequences of exposed operations\<close>

text \<open>
  On an initialised instance no exposed operation raises, none unsets a slot, and none
  touches \<open>_meow\<close>.
\<close>

lemma apply_op_initialised:
  assumes "initialised r"
  shows "\<exists>r'. apply_op r x = Inr r' \<and> initialised r' \<and> r' ''_meow'' = r ''_meow''"
proof (cases x)
  case GetFieldA
  with assms show ?thesis by (auto simp: initialised_def getFieldA_eq)
next
  case GetFieldB
  with assms show ?thesis by (auto simp: initialised_def getFieldB_eq)
next
  case GetFieldC
  with assms show ?thesis by (auto simp: initialised_def getFieldC_eq)
next
  case (SetFieldB v)
  with assms show ?thesis by (simp add: initialised_def setFieldB_eq)
next
  case (SetFieldC v)
  with assms show ?thesis by (simp add: initialised_def setFieldC_eq)
qed

lemma run_initialised:
  "initialised r \<Longrightarrow> \<exists>r'. run ops r = Inr r' \<and> initialised r' \<and> r' ''_meow'' = r ''_meow''"
proof (induction ops arbitrary: r)
  case Nil
  then show ?case by simp
next
  case (Cons x xs)
  from apply_op_initialised [OF Cons.prems, of x]
  obtain r1 where r1: "apply_op r x = Inr r1" "initialised r1" "r1 ''_meow'' = r ''_meow''"
    by blast
  from Cons.IH [OF r1(2)]
  obtain r2 where r2: "run xs r1 = Inr r2" "initialised r2" "r2 ''_meow'' = r1 ''_meow''"
    by blast
  from r1 r2 show ?case by simp
qed

lemma Foo_new_initialised: "Foo_new a b c = Inr r \<Longrightarrow> initialised r \<and> r ''_meow'' = Some a"
  by (auto simp: Foo_new_eq initialised_def)

section \<open>The claims\<close>

text \<open>
  C1. For every integer \<open>a\<close>, string \<open>b\<close> and boolean \<open>c\<close>, the construction
  \<open>Foo(a, b, c)\<close> returns an instance, and on that instance, right after the
  construction, \<open>meow\<close> returns \<open>a\<close>, \<open>hello\<close> returns \<open>b\<close> and \<open>isTrue\<close> returns \<open>c\<close>.
\<close>

theorem construct_then_read:
  "\<exists>r. Foo_new (PyInt a) (PyStr b) (PyBool c) = Inr r
      \<and> getFieldA r = Inr (PyInt a)
      \<and> getFieldB r = Inr (PyStr b)
      \<and> getFieldC r = Inr (PyBool c)"
  by (simp add: Foo_new_eq getFieldA_eq getFieldB_eq getFieldC_eq)

text \<open>
  C2. Whatever sequence of the exposed operations (reads of the three properties,
  assignments to \<open>hello\<close> and \<open>isTrue\<close>, with any values) is run on a constructed
  instance, the sequence runs to its end and \<open>meow\<close> then returns the value given for it
  at construction. Every prefix of a sequence is a sequence, so this holds at each
  point in between as well.
\<close>

theorem fieldA_fixed:
  "\<exists>r r'. Foo_new a b c = Inr r \<and> run ops r = Inr r' \<and> getFieldA r' = Inr a"
proof -
  obtain r where r: "Foo_new a b c = Inr r"
    by (simp add: Foo_new_eq)
  then have init: "initialised r" and ma: "r ''_meow'' = Some a"
    using Foo_new_initialised by blast+
  from run_initialised [OF init, of ops]
  obtain r' where r': "run ops r = Inr r'" "r' ''_meow'' = r ''_meow''"
    by blast
  with ma have "getFieldA r' = Inr a"
    by (simp add: getFieldA_eq)
  with r r' show ?thesis by blast
qed

text \<open>
  C3. For every instance \<open>r\<close> and every string \<open>s\<close>, the assignment \<open>r.hello = s\<close>
  succeeds, and \<open>r.hello\<close> then returns exactly \<open>s\<close>, whatever the slot held before.
\<close>

theorem setFieldB_then_getFieldB:
  "\<exists>r'. setFieldB r (PyStr s) = Inr r' \<and> getFieldB r' = Inr (PyStr s)"
  by (simp add: setFieldB_eq getFieldB_eq)

text \<open>
  C4. For every instance \<open>r\<close> and every boolean \<open>b\<close>, the assignment \<open>r.isTrue = b\<close>
  succeeds, and \<open>r.isTrue\<close> then returns exactly \<open>b\<close>.
\<close>

theorem setFieldC_then_getFieldC:
  "\<exists>r'. setFieldC r (PyBool b) = Inr r' \<and> getFieldC r' = Inr (PyBool b)"
  by (simp add: setFieldC_eq getFieldC_eq)

text \<open>
  C5. Each mutator changes its own field only: after \<open>r.hello = s\<close> the reads of \<open>meow\<close>
  and \<open>isTrue\<close> give what they gave before (the same value, or the same exception on
  an unset slot), and after \<open>r.isTrue = b\<close> so do the reads of \<open>meow\<close> and \<open>hello\<close>.
\<close>

theorem mutators_frame:
  "(\<exists>r'. setFieldB r (PyStr s) = Inr r'
        \<and> getFieldA r' = getFieldA r \<and> getFieldC r' = getFieldC r)
   \<and> (\<exists>r'. setFieldC r (PyBool b) = Inr r'
        \<and> getFieldA r' = getFieldA r \<and> getFieldB r' = getFieldB r)"
  by (simp add: setFieldB_eq setFieldC_eq getFieldA_eq getFieldB_eq getFieldC_eq)

text \<open>
  C6, as amended. The construction checks no type: the annotations \<open>int\<close>, \<open>str\<close>,
  \<open>bool\<close> of \<open>__init__\<close> are not enforced when the program runs, and its body only
  stores. For any three values, of whatever type, \<open>Foo(a, b, c)\<close> returns an instance,
  and the three getters return the values as they were passed; no exception is raised.
\<close>

theorem construction_unchecked:
  "\<exists>r. Foo_new a b c = Inr r
      \<and> getFieldA r = Inr a \<and> getFieldB r = Inr b \<and> getFieldC r = Inr c"
  by (simp add: Foo_new_eq getFieldA_eq getFieldB_eq getFieldC_eq)

text \<open>
  The claim as the specification has it (a mistyped argument makes the construction fail)
  does not hold: with the string \<open>'x'\<close> for the integer field, \<open>Foo('x', 'hi', True)\<close>
  raises nothing, and \<open>meow\<close> on the instance returns \<open>'x'\<close>.
\<close>

theorem construction_mistyped_succeeds:
  "\<not> isl (Foo_new (PyStr ''x'') (PyStr ''hi'') (PyBool True))
   \<and> and_then (Foo_new (PyStr ''x'') (PyStr ''hi'') (PyBool True)) getFieldA = Inr (PyStr ''x'')"
  by (simp add: Foo_new_eq and_then_def getFieldA_eq)

text \<open>
  C7, as amended. The setters check no type either: for every instance and every value,
  of whatever type, \<open>r.hello = v\<close> and \<open>r.isTrue = v\<close> succeed and store \<open>v\<close>, which the
  getter then returns; no exception is raised.
\<close>

theorem mutators_unchecked:
  "(\<exists>r'. setFieldB r v = Inr r' \<and> getFieldB r' = Inr v)
   \<and> (\<exists>r'. setFieldC r v = Inr r' \<and> getFieldC r' = Inr v)"
  by (simp add: setFieldB_eq setFieldC_eq getFieldB_eq getFieldC_eq)

text \<open>
  The claim as the specification has it (an ill-typed value makes the mutator fail) does
  not hold: on \<open>Foo(42, 'hi', True)\<close>, \<open>r.hello = 5\<close> and then \<open>r.isTrue = 'no'\<close> raise
  nothing, and the getters return the integer \<open>5\<close> and the string \<open>'no'\<close>.
\<close>

theorem mutators_mistyped_stored:
  "and_then (and_then (Foo_new (PyInt 42) (PyStr ''hi'') (PyBool True))
              (run [SetFieldB (PyInt 5), SetFieldC (PyStr ''no'')])) getFieldB
     = Inr (PyInt 5)
   \<and> and_then (and_then (Foo_new (PyInt 42) (PyStr ''hi'') (PyBool True))
              (run [SetFieldB (PyInt 5), SetFieldC (PyStr ''no'')])) getFieldC
     = Inr (PyStr ''no'')"
  by (simp add: Foo_new_eq and_then_def setFieldB_eq setFieldC_eq getFieldB_eq getFieldC_eq)

text \<open>
  C8, as amended. The property \<open>meow\<close> has no setter: on every instance and for every
  value, the assignment \<open>r.meow = v\<close> raises \<open>AttributeError\<close>, so nothing is stored.
  The protection is that of the public name \<open>meow\<close>; it does not extend to the slot
  \<open>_meow\<close> behind it.
\<close>

theorem meow_property_read_only:
  "setattr r ''meow'' v = Inl AttributeError"
  by (rule setattr_meow)

text \<open>
  The claim as the specification has it (every attempt to write the field after the
  construction is rejected) does not hold: on \<open>Foo(42, 'hi', True)\<close> the assignment
  \<open>r._meow = 7\<close> raises nothing, and \<open>meow\<close> then returns \<open>7\<close>.
\<close>

theorem meow_slot_write_accepted:
  "and_then (and_then (Foo_new (PyInt 42) (PyStr ''hi'') (PyBool True))
              (assign ''_meow'' (PyInt 7))) getFieldA
     = Inr (PyInt 7)"
  by (simp add: Foo_new_eq and_then_def assign_def setattr_slot slots_def member_set_def
      getFieldA_eq)




text \<open>
  C10. The read-only protection of \<open>meow\<close> is that of the property name only. On every
  instance and for every value, the assignment \<open>r._meow = v\<close> to the slot raises
  nothing, and \<open>meow\<close> then returns \<open>v\<close>, not the value given at construction.
\<close>

theorem slot_write_bypasses_property:
  "\<exists>r'. setattr r ''_meow'' v = Inr r' \<and> getFieldA r' = Inr v"
  by (simp add: setattr_slot slots_def member_set_def getFieldA_eq)

end
